theory Spec2Isabelle
  imports Complex_Main
begin

unbundle bit_operations_syntax

section \<open>The viewport widget of asammdf: \<open>gui/widgets/viewbox.py\<close>\<close>

text \<open>
  The module defines two classes on top of pyqtgraph and Qt: \<open>ViewBoxMenu\<close> (the context
  menu with the mouse-mode entries) and \<open>ViewBoxWithCursor\<close> (a \<open>pg.ViewBox\<close> with a
  cursor mode and modifier-constrained zoom gestures).

  Conventions of the embedding:
  \<^item> Python floats are read as real numbers (\<open>**\<close> on a positive base is \<open>powr\<close>).
    The exception is the centering branch of \<open>wheelEvent\<close>, which adds and subtracts its
    inputs: there every operation is followed by the rounding of double-precision arithmetic,
    a parameter \<open>fl\<close> of the handler about which nothing is assumed.
  \<^item> The inherited \<open>pg.ViewBox\<close> is a library: its private state (transform, ranges,
    auto-range target) is a value of an arbitrary type \<open>'b\<close>, and the inherited methods the
    module calls are the fields of a record of functions on \<open>'b\<close>.
  \<^item> Every signal emission and every call of an inherited mutator is appended, in program
    order, to the field \<open>trace\<close> of the viewport.
  \<^item> A raised exception is a value: a fallible method returns its outcome together with the
    viewport as the exception leaves it.
  \<^item> \<open>ev.accept()\<close> and \<open>ev.ignore()\<close> write the field \<open>accepted\<close> of the event, and
    every handler returns the event together with the viewport.
\<close>

subsection \<open>Points\<close>

type_synonym Point = "real \<times> real"

definition Point_sub :: "Point \<Rightarrow> Point \<Rightarrow> Point" where
  "Point_sub p q = (fst p - fst q, snd p - snd q)"

definition Point_mul :: "Point \<Rightarrow> Point \<Rightarrow> Point" where
  \<comment> \<open>\<open>Point * array\<close>: component by component\<close>
  "Point_mul p m = (fst p * fst m, snd p * snd m)"

definition Point_scale :: "Point \<Rightarrow> real \<Rightarrow> Point" where
  "Point_scale p k = (fst p * k, snd p * k)"

subsection \<open>Qt constants and events\<close>

text \<open>The values of the \<open>Qt\<close> namespace that the module names.\<close>

definition ShiftModifier :: int where "ShiftModifier = 0x02000000"
definition AltModifier :: int where "AltModifier = 0x08000000"
definition Key_Shift :: int where "Key_Shift = 0x01000020"
definition Key_Alt :: int where "Key_Alt = 0x01000023"

definition LeftButton :: nat where "LeftButton = 1"
definition RightButton :: nat where "RightButton = 2"
definition MiddleButton :: nat where "MiddleButton = 4"

record QKeyCombination =
  keyboardModifiers :: int
  key :: int

definition toCombined :: "QKeyCombination \<Rightarrow> int" where
  "toCombined kc = keyboardModifiers kc OR key kc"

record QEvent =
  accepted :: bool

record KeyEvent = QEvent +
  keyCombination :: QKeyCombination

record MouseEvent = QEvent +
  button :: nat
  scenePos :: Point

record MouseDragEvent = MouseEvent +
  lastScenePos :: Point
  screenPos :: Point
  lastScreenPos :: Point
  buttonDownPos :: "nat \<Rightarrow> Point"
  isFinish :: bool

record WheelEvent = QEvent +
  delta :: int
  pos :: Point

definition accept :: "'a QEvent_scheme \<Rightarrow> 'a QEvent_scheme" where
  "accept ev = ev\<lparr>accepted := True\<rparr>"

definition ignore :: "'a QEvent_scheme \<Rightarrow> 'a QEvent_scheme" where
  "ignore ev = ev\<lparr>accepted := False\<rparr>"

text \<open>The \<open>axis\<close> argument of the handlers is \<open>None\<close>, 0 or 1.\<close>

datatype axis = Axis0 | Axis1

subsection \<open>The state of the two classes\<close>

definition PanMode :: int where "PanMode = 3"
definition CursorMode :: int where "CursorMode = 2"
definition RectMode :: int where "RectMode = 1"

definition X_zoom :: int where
  "X_zoom = toCombined \<lparr>keyboardModifiers = ShiftModifier, key = Key_Shift\<rparr>"

definition Y_zoom :: int where
  "Y_zoom = toCombined \<lparr>keyboardModifiers = AltModifier, key = Key_Alt\<rparr>"

definition XY_zoom :: "int list" where
  "XY_zoom =
     [toCombined \<lparr>keyboardModifiers = ShiftModifier OR AltModifier, key = Key_Alt\<rparr>,
      toCombined \<lparr>keyboardModifiers = ShiftModifier OR AltModifier, key = Key_Shift\<rparr>]"

datatype error = Exception string

text \<open>
  What the handlers do to the outside: signals (with their payload) and calls of the
  inherited mutators (with their arguments).
\<close>

datatype effect =
    sigStateChanged
  | sigCursorMoved MouseDragEvent
  | sigZoomChanged "(Point \<times> Point \<times> int option) option"
  | sigZoomFinished "Point \<times> Point \<times> int option"
  | sigRangeChangedManually "bool \<times> bool"
  | call_resetTarget
  | call_translateBy "real option" "real option"
  | call_scaleBy "real option" "real option" Point
  | call_setXRange real real real

text \<open>
  The inherited methods of \<open>pg.ViewBox\<close> that the module uses. \<open>invertedMap b p\<close> is
  \<open>fn.invertQTransform(self.childGroup.transform()).map(p)\<close>.
\<close>

record 'b ViewBox =
  mapSceneToView :: "'b \<Rightarrow> Point \<Rightarrow> Point"
  invertedMap :: "'b \<Rightarrow> Point \<Rightarrow> Point"
  viewRange :: "'b \<Rightarrow> (real \<times> real) \<times> (real \<times> real)"
  resetTarget :: "'b \<Rightarrow> 'b"
  translateBy :: "real option \<Rightarrow> real option \<Rightarrow> 'b \<Rightarrow> 'b"
  scaleBy :: "real option \<Rightarrow> real option \<Rightarrow> Point \<Rightarrow> 'b \<Rightarrow> 'b"
  setXRange :: "real \<Rightarrow> real \<Rightarrow> real \<Rightarrow> 'b \<Rightarrow> 'b"

text \<open>
  \<open>ViewBoxMenu\<close>: the dirty flag and the checked state of the entries
  \<open>mouseModes = [pan, cursor, zoom]\<close>.
\<close>

record ViewBoxMenu =
  valid :: bool
  mouseModes :: "bool list"

text \<open>The cursor line of the plot: its position and whether it is shown.\<close>

record Cursor =
  cursor_value :: real
  isVisible :: bool

text \<open>
  \<open>ViewBoxWithCursor\<close>. The entries of the dictionary \<open>self.state\<close> that the module reads
  are fields: \<open>aspectLocked\<close> is \<open>None\<close> for Python's \<open>False\<close> and the ratio otherwise;
  \<open>zoom_x_center_on_cursor\<close> is the stored setting, \<open>None\<close> when it was never stored.
\<close>

record 'b ViewBoxWithCursor =
  base :: 'b
  mouseMode :: int
  mouseEnabled :: "bool \<times> bool"
  aspectLocked :: "real option"
  wheelScaleFactor :: real
  menu :: ViewBoxMenu
  zoom :: "int option"
  zoom_start :: "Point option"
  cursor :: "Cursor option"
  zoom_x_center_on_cursor :: "bool option"
  trace :: "effect list"

definition emit :: "effect \<Rightarrow> 'b ViewBoxWithCursor \<Rightarrow> 'b ViewBoxWithCursor" where
  "emit e self = self\<lparr>trace := trace self @ [e]\<rparr>"

definition do_resetTarget :: "'b ViewBox \<Rightarrow> 'b ViewBoxWithCursor \<Rightarrow> 'b ViewBoxWithCursor" where
  "do_resetTarget vb self =
     self\<lparr>base := resetTarget vb (base self), trace := trace self @ [call_resetTarget]\<rparr>"

definition do_translateBy ::
  "'b ViewBox \<Rightarrow> real option \<Rightarrow> real option \<Rightarrow> 'b ViewBoxWithCursor \<Rightarrow> 'b ViewBoxWithCursor" where
  "do_translateBy vb x y self =
     self\<lparr>base := translateBy vb x y (base self), trace := trace self @ [call_translateBy x y]\<rparr>"

definition do_scaleBy ::
  "'b ViewBox \<Rightarrow> real option \<Rightarrow> real option \<Rightarrow> Point \<Rightarrow> 'b ViewBoxWithCursor
     \<Rightarrow> 'b ViewBoxWithCursor" where
  "do_scaleBy vb x y center self =
     self\<lparr>base := scaleBy vb x y center (base self),
          trace := trace self @ [call_scaleBy x y center]\<rparr>"


subsection \<open>\<open>ViewBoxMenu\<close>\<close>

text \<open>
  \<open>QAction.setChecked(True)\<close> on entry \<open>i\<close>. The three actions are checkable and belong to
  one \<open>QActionGroup\<close>, which is exclusive: checking one unchecks the others. The list
  \<open>mouseModes\<close> holds the three entries that the constructor puts there, and nothing in
  the module changes its length, so the indices 0, 1 and 2 are in range.
\<close>

definition setChecked_True :: "nat \<Rightarrow> bool list \<Rightarrow> bool list" where
  "setChecked_True i cs = (map (\<lambda>_. False) cs)[i := True]"

definition updateState :: "'b ViewBoxWithCursor \<Rightarrow> 'b ViewBoxWithCursor" where
  "updateState view =
     (let m = menu view;
          checked =
            (if mouseMode view = PanMode then setChecked_True 0 (mouseModes m)
             else if mouseMode view = CursorMode then setChecked_True 1 (mouseModes m)
             else setChecked_True 2 (mouseModes m))
      in view\<lparr>menu := m\<lparr>mouseModes := checked, valid := True\<rparr>\<rparr>)"

definition viewStateChanged :: "'b ViewBoxWithCursor \<Rightarrow> 'b ViewBoxWithCursor" where
  "viewStateChanged view = updateState (view\<lparr>menu := (menu view)\<lparr>valid := False\<rparr>\<rparr>)"

text \<open>The part of \<open>popup\<close> before the menu is shown.\<close>

definition popup :: "'b ViewBoxWithCursor \<Rightarrow> 'b ViewBoxWithCursor" where
  "popup view = (if \<not> valid (menu view) then updateState view else view)"

subsection \<open>\<open>ViewBoxWithCursor\<close>: the mode setters\<close>

text \<open>
  \<open>self.sigStateChanged.emit(self)\<close>: the menu connected \<open>viewStateChanged\<close> to the signal
  in its constructor, so the slot runs during the emission.
\<close>

definition emit_sigStateChanged :: "'b ViewBoxWithCursor \<Rightarrow> 'b ViewBoxWithCursor" where
  "emit_sigStateChanged self = viewStateChanged (emit sigStateChanged self)"

definition setMouseMode ::
  "int \<Rightarrow> 'b ViewBoxWithCursor \<Rightarrow> (error + unit) \<times> 'b ViewBoxWithCursor" where
  "setMouseMode mode self =
     (if mode \<notin> set [PanMode, CursorMode, RectMode] then
        (Inl (Exception
           ''Mode must be ViewBoxWithCursor.PanMode, ViewBoxWithCursor.RectMode or ViewBoxWithCursor.CursorMode''),
         self)
      else (Inr (), emit_sigStateChanged (self\<lparr>mouseMode := mode\<rparr>)))"

text \<open>
  \<open>str.lower()\<close>. Only the letters A to Z are mapped: on every other character Python's
  \<open>lower\<close> returns no character of the words \<open>rect\<close>, \<open>pan\<close> and \<open>cursor\<close>, so the
  comparisons below are not affected.
\<close>

definition lower_char :: "char \<Rightarrow> char" where
  "lower_char c =
     (case map_of (zip ''ABCDEFGHIJKLMNOPQRSTUVWXYZ'' ''abcdefghijklmnopqrstuvwxyz'') c of
        Some d \<Rightarrow> d
      | None \<Rightarrow> c)"

definition lower :: "string \<Rightarrow> string" where
  "lower s = map lower_char s"

definition setLeftButtonAction ::
  "string \<Rightarrow> 'b ViewBoxWithCursor \<Rightarrow> (error + unit) \<times> 'b ViewBoxWithCursor" where
  \<open>setLeftButtonAction mode self =
     (if lower mode = ''rect'' then setMouseMode RectMode self
      else if lower mode = ''pan'' then setMouseMode PanMode self
      else if lower mode = ''cursor'' then setMouseMode CursorMode self
      else
        (Inl (Exception
           (''graphicsItems:ViewBox:setLeftButtonAction: unknown mode = '' @ mode @
            '' (Options are "pan", "cursor" and "rect")'')),
         self))\<close>

text \<open>\<open>ViewBoxMenu.set_mouse_mode\<close>, the slot of the menu entries.\<close>

definition set_mouse_mode ::
  "string \<Rightarrow> 'b ViewBoxWithCursor \<Rightarrow> (error + unit) \<times> 'b ViewBoxWithCursor" where
  "set_mouse_mode mode view = setLeftButtonAction mode view"

subsection \<open>\<open>ViewBoxWithCursor\<close>: keyboard and mouse press\<close>

definition keyPressEvent ::
  "KeyEvent \<Rightarrow> 'b ViewBoxWithCursor \<Rightarrow> KeyEvent \<times> 'b ViewBoxWithCursor" where
  "keyPressEvent ev self =
     (let self1 =
        (if zoom_start self = None
         then self\<lparr>zoom := Some (toCombined (keyCombination ev))\<rparr>
         else self)
      in (ignore ev, self1))"

definition keyReleaseEvent ::
  "KeyEvent \<Rightarrow> 'b ViewBoxWithCursor \<Rightarrow> KeyEvent \<times> 'b ViewBoxWithCursor" where
  "keyReleaseEvent ev self =
     (let self1 = (if zoom_start self = None then self\<lparr>zoom := None\<rparr> else self)
      in (ignore ev, self1))"

definition mousePressEvent ::
  "'b ViewBox \<Rightarrow> MouseEvent \<Rightarrow> 'b ViewBoxWithCursor \<Rightarrow> MouseEvent \<times> 'b ViewBoxWithCursor" where
  "mousePressEvent vb ev self =
     (let self1 =
        (if mouseMode self = CursorMode
            \<and> zoom self \<in> set (map Some ([X_zoom, Y_zoom] @ XY_zoom))
         then self\<lparr>zoom_start := Some (mapSceneToView vb (base self) (scenePos ev))\<rparr>
         else self)
      in (ignore ev, self1))"

subsection \<open>\<open>ViewBoxWithCursor\<close>: dragging\<close>

definition float_of_bool :: "bool \<Rightarrow> real" where
  \<comment> \<open>\<open>np.array(..., dtype=np.float64)\<close> on a Boolean\<close>
  "float_of_bool b = (if b then 1 else 0)"

definition drag_mask :: "bool \<times> bool \<Rightarrow> axis option \<Rightarrow> Point" where
  \<comment> \<open>\<open>mask = mouseEnabled.copy()\<close>, then \<open>mask[1 - axis] = 0.0\<close> when an axis is given\<close>
  "drag_mask enabled ax =
     (let mask = (float_of_bool (fst enabled), float_of_bool (snd enabled))
      in case ax of
           None \<Rightarrow> mask
         | Some Axis0 \<Rightarrow> (fst mask, 0)
         | Some Axis1 \<Rightarrow> (0, snd mask))"

definition mouseDragEvent ::
  "'b ViewBox \<Rightarrow> MouseDragEvent \<Rightarrow> axis option \<Rightarrow> bool \<Rightarrow> 'b ViewBoxWithCursor
     \<Rightarrow> MouseDragEvent \<times> 'b ViewBoxWithCursor" where
  "mouseDragEvent vb ev0 ax ignore_cursor self =
     (let ev = accept ev0;
          dif = Point_scale (Point_sub (scenePos ev) (lastScenePos ev)) (- 1);
          enabled = (float_of_bool (fst (mouseEnabled self)),
                     float_of_bool (snd (mouseEnabled self)));
          mask = drag_mask (mouseEnabled self) ax
      in
      if mouseMode self = CursorMode \<and> \<not> ignore_cursor then
        if button ev = LeftButton then
          (let self1 = emit (sigCursorMoved ev) self
           in case zoom_start self1 of
                None \<Rightarrow> (ev, self1)
              | Some start \<Rightarrow>
                  (let end_point = mapSceneToView vb (base self1) (scenePos ev);
                       self2 = emit (sigZoomChanged (Some (start, end_point, zoom self1))) self1
                   in if isFinish ev then
                        (let self3 = emit (sigZoomFinished (start, end_point, zoom self2)) self2;
                             self4 = self3\<lparr>zoom_start := None\<rparr>
                         in (ev, emit (sigZoomChanged None) self4))
                      else (ev, self2)))
        else
          (let tr = Point_sub (invertedMap vb (base self) (Point_mul dif mask))
                              (invertedMap vb (base self) (0, 0));
               x = (if fst mask = 1 then Some (fst tr) else None);
               self1 = do_resetTarget vb self;
               self2 = (if x \<noteq> None then do_translateBy vb x (Some 0) self1 else self1)
           in (ev, emit (sigRangeChangedManually (mouseEnabled self2)) self2))
      else
        if button ev \<in> set [LeftButton, MiddleButton] then
          (let tr = Point_sub (invertedMap vb (base self) (Point_mul dif mask))
                              (invertedMap vb (base self) (0, 0));
               x = (if fst mask = 1 then Some (fst tr) else None);
               y = (if snd mask = 1 then Some (snd tr) else None);
               self1 = do_resetTarget vb self;
               self2 = (if x \<noteq> None \<or> y \<noteq> None then do_translateBy vb x y self1 else self1)
           in (ev, emit (sigRangeChangedManually (mouseEnabled self2)) self2))
        else if button ev AND RightButton \<noteq> 0 then
          (let mask1 = (if aspectLocked self \<noteq> None then (0, snd mask) else mask);
               d = Point_sub (screenPos ev) (lastScreenPos ev);
               dif1 = (fst d * (- 1), snd d);
               s = ((fst mask1 * 0.02 + 1) powr fst dif1, (snd mask1 * 0.02 + 1) powr snd dif1);
               x = (if fst enabled = 1 then Some (fst s) else None);
               y = (if snd enabled = 1 then Some (snd s) else None);
               center = invertedMap vb (base self) (buttonDownPos ev RightButton);
               self1 = do_resetTarget vb self;
               self2 = do_scaleBy vb x y center self1
           in (ev, emit (sigRangeChangedManually (mouseEnabled self2)) self2))
        else (ev, self))"

subsection \<open>\<open>ViewBoxWithCursor\<close>: the wheel\<close>





subsection \<open>Sequences of input events\<close>

datatype input =
    KeyPress KeyEvent
  | KeyRelease KeyEvent
  | MousePress MouseEvent
  | MouseDrag MouseDragEvent "axis option" bool

fun dispatch :: "'b ViewBox \<Rightarrow> 'b ViewBoxWithCursor \<Rightarrow> input \<Rightarrow> 'b ViewBoxWithCursor" where
  "dispatch vb self (KeyPress ev) = snd (keyPressEvent ev self)"
| "dispatch vb self (KeyRelease ev) = snd (keyReleaseEvent ev self)"
| "dispatch vb self (MousePress ev) = snd (mousePressEvent vb ev self)"
| "dispatch vb self (MouseDrag ev ax ignore_cursor) =
     snd (mouseDragEvent vb ev ax ignore_cursor self)"

definition run :: "'b ViewBox \<Rightarrow> 'b ViewBoxWithCursor \<Rightarrow> input list \<Rightarrow> 'b ViewBoxWithCursor" where
  "run vb self evs = foldl (dispatch vb) self evs"

subsection \<open>Construction\<close>

text \<open>
  \<open>ViewBoxWithCursor.__init__\<close>: the inherited constructor fills \<open>self.state\<close> (the first
  five arguments are what it leaves there), the menu is built and refreshed once by its own
  constructor, and the gesture fields and the cursor start empty.
\<close>

definition init ::
  "'b \<Rightarrow> int \<Rightarrow> bool \<times> bool \<Rightarrow> real option \<Rightarrow> real \<Rightarrow> bool option \<Rightarrow> 'b ViewBoxWithCursor" where
  "init b mode enabled locked factor stored =
     updateState
       \<lparr>base = b, mouseMode = mode, mouseEnabled = enabled, aspectLocked = locked,
        wheelScaleFactor = factor,
        menu = \<lparr>valid = False, mouseModes = [False, False, False]\<rparr>,
        zoom = None, zoom_start = None, cursor = None,
        zoom_x_center_on_cursor = stored, trace = []\<rparr>"

subsection \<open>Notions used in the statements\<close>

text \<open>The combinations that \<open>mousePressEvent\<close> accepts as zoom modifiers.\<close>

definition recognized :: "int option \<Rightarrow> bool" where
  "recognized z \<longleftrightarrow> z \<in> set (map Some ([X_zoom, Y_zoom] @ XY_zoom))"

text \<open>
  The invariant of the gesture fields: a start point is recorded only in cursor mode and
  only with a recognized combination in \<open>self.zoom\<close>.
\<close>

definition gesture_inv :: "'b ViewBoxWithCursor \<Rightarrow> bool" where
  "gesture_inv self \<longleftrightarrow>
     (zoom_start self = None \<or> (mouseMode self = CursorMode \<and> recognized (zoom self)))"

text \<open>The signals of the cursor and of the zoom gesture.\<close>

fun cursor_or_zoom_signal :: "effect \<Rightarrow> bool" where
  "cursor_or_zoom_signal (sigCursorMoved _) = True"
| "cursor_or_zoom_signal (sigZoomChanged _) = True"
| "cursor_or_zoom_signal (sigZoomFinished _) = True"
| "cursor_or_zoom_signal _ = False"

text \<open>
  The entry of \<open>scale\<close> that \<open>pg.ViewBox.scaleBy\<close> builds from an argument, in
  \<open>scale = Point([1.0 if x is None else x, 1.0 if y is None else y])\<close>. It is what the
  argument stands for, not what the view ends up applying to the axis: with the aspect ratio
  locked, \<open>scaleBy\<close> goes on to overwrite \<open>scale[0]\<close> with \<open>scale[1]\<close>.
\<close>

definition scale_entry :: "real option \<Rightarrow> real" where
  "scale_entry a = (case a of None \<Rightarrow> 1 | Some k \<Rightarrow> k)"

text \<open>
  The reading of "case-insensitive" for the legacy setter: \<open>any_case w s\<close> holds when \<open>s\<close>
  is the lower-case word \<open>w\<close> with each letter in either case.
\<close>

definition upper_char :: "char \<Rightarrow> char" where
  "upper_char c =
     (case map_of (zip ''abcdefghijklmnopqrstuvwxyz'' ''ABCDEFGHIJKLMNOPQRSTUVWXYZ'') c of
        Some d \<Rightarrow> d
      | None \<Rightarrow> c)"

definition any_case :: "string \<Rightarrow> string \<Rightarrow> bool" where
  "any_case w s \<longleftrightarrow> list_all2 (\<lambda>d c. c = d \<or> c = upper_char d) w s"

subsection \<open>A concrete viewport\<close>

text \<open>
  An instance of the inherited methods, for evaluating the handlers: the private state is
  the visible range, scene coordinates are data coordinates, and the mutators move the
  range as the library does while the aspect ratio is not locked.
\<close>

definition range_ViewBox :: "((real \<times> real) \<times> (real \<times> real)) ViewBox" where
  "range_ViewBox =
     \<lparr>mapSceneToView = (\<lambda>_ p. p),
      invertedMap = (\<lambda>_ p. p),
      viewRange = (\<lambda>r. r),
      resetTarget = (\<lambda>r. r),
      translateBy = (\<lambda>x y r.
         (let dx = (case x of None \<Rightarrow> 0 | Some v \<Rightarrow> v);
              dy = (case y of None \<Rightarrow> 0 | Some v \<Rightarrow> v)
          in ((fst (fst r) + dx, snd (fst r) + dx), (fst (snd r) + dy, snd (snd r) + dy)))),
      scaleBy = (\<lambda>x y c r.
         (let sx = scale_entry x; sy = scale_entry y
          in ((fst c + (fst (fst r) - fst c) * sx, fst c + (snd (fst r) - fst c) * sx),
              (snd c + (fst (snd r) - snd c) * sy, snd c + (snd (snd r) - snd c) * sy)))),
      setXRange = (\<lambda>lo hi padding r. ((lo, hi), snd r))\<rparr>"

definition cursor_view :: "((real \<times> real) \<times> (real \<times> real)) ViewBoxWithCursor" where
  \<comment> \<open>a fresh viewport in cursor mode, showing \<open>[0, 10] \<times> [0, 1]\<close>\<close>
  "cursor_view = init ((0, 10), (0, 1)) CursorMode (True, True) None (- 1 / 8) None"

definition pan_view :: "((real \<times> real) \<times> (real \<times> real)) ViewBoxWithCursor" where
  \<comment> \<open>a fresh viewport in pan mode with the aspect ratio locked\<close>
  "pan_view = init ((0, 10), (0, 1)) PanMode (True, True) (Some 1) (- 1 / 8) None"

definition shift_key :: KeyEvent where
  "shift_key =
     \<lparr>accepted = True,
      keyCombination = \<lparr>keyboardModifiers = ShiftModifier, key = Key_Shift\<rparr>\<rparr>"

definition press_at :: "Point \<Rightarrow> MouseEvent" where
  "press_at p = \<lparr>accepted = True, button = LeftButton, scenePos = p\<rparr>"

definition drag_to :: "nat \<Rightarrow> Point \<Rightarrow> Point \<Rightarrow> bool \<Rightarrow> MouseDragEvent" where
  \<comment> \<open>a drag move of a button from one point to another (scene and screen alike)\<close>
  "drag_to b p q fin =
     \<lparr>accepted = False, button = b, scenePos = q, lastScenePos = p, screenPos = q,
      lastScreenPos = p, buttonDownPos = (\<lambda>_. p), isFinish = fin\<rparr>"

definition wheel_at :: "int \<Rightarrow> Point \<Rightarrow> WheelEvent" where
  "wheel_at d p = \<lparr>accepted = False, delta = d, pos = p\<rparr>"

definition gesture_view :: "((real \<times> real) \<times> (real \<times> real)) ViewBoxWithCursor" where
  \<comment> \<open>\<open>cursor_view\<close> after Shift went down and the mouse was pressed at \<open>(3, 4)\<close>\<close>
  "gesture_view = run range_ViewBox cursor_view [KeyPress shift_key, MousePress (press_at (3, 4))]"

text \<open>
  The same instance as the library behaves while \<open>state['aspectLocked']\<close> is not
  \<open>False\<close>: \<open>scaleBy\<close> sets \<open>scale[0] = scale[1]\<close>, so both ranges are scaled, around the
  centre, by the entry of the y argument.
\<close>

definition locked_ViewBox :: "((real \<times> real) \<times> (real \<times> real)) ViewBox" where
  "locked_ViewBox =
     range_ViewBox\<lparr>scaleBy := (\<lambda>x y c r.
         (let s = scale_entry y
          in ((fst c + (fst (fst r) - fst c) * s, fst c + (snd (fst r) - fst c) * s),
              (snd c + (fst (snd r) - snd c) * s, snd c + (snd (snd r) - snd c) * s))))\<rparr>"

section \<open>Properties\<close>

subsection \<open>Constants and events\<close>

lemma zoom_constants:
  "X_zoom = 0x03000020" "Y_zoom = 0x09000023" "XY_zoom = [0x0B000023, 0x0B000020]"
  by (simp_all add: X_zoom_def Y_zoom_def XY_zoom_def toCombined_def ShiftModifier_def
      AltModifier_def Key_Shift_def Key_Alt_def)

lemma recognized_simps:
  "recognized (Some X_zoom)" "\<not> recognized None"
  by (simp_all add: recognized_def)

lemma accept_fields:
  "button (accept ev) = button ev" "scenePos (accept ev) = scenePos ev"
  "lastScenePos (accept ev) = lastScenePos ev" "screenPos (accept ev) = screenPos ev"
  "lastScreenPos (accept ev) = lastScreenPos ev" "buttonDownPos (accept ev) = buttonDownPos ev"
  "isFinish (accept ev) = isFinish ev"
  by (simp_all add: accept_def)

subsection \<open>The sample viewports\<close>

lemma cursor_view_eq:
  "cursor_view =
     \<lparr>base = ((0, 10), (0, 1)), mouseMode = CursorMode, mouseEnabled = (True, True),
      aspectLocked = None, wheelScaleFactor = - 1 / 8,
      menu = \<lparr>valid = True, mouseModes = [False, True, False]\<rparr>,
      zoom = None, zoom_start = None, cursor = None,
      zoom_x_center_on_cursor = None, trace = []\<rparr>"
  by (simp add: cursor_view_def init_def updateState_def Let_def setChecked_True_def
      PanMode_def CursorMode_def)

lemma pan_view_eq:
  "pan_view =
     \<lparr>base = ((0, 10), (0, 1)), mouseMode = PanMode, mouseEnabled = (True, True),
      aspectLocked = Some 1, wheelScaleFactor = - 1 / 8,
      menu = \<lparr>valid = True, mouseModes = [True, False, False]\<rparr>,
      zoom = None, zoom_start = None, cursor = None,
      zoom_x_center_on_cursor = None, trace = []\<rparr>"
  by (simp add: pan_view_def init_def updateState_def Let_def setChecked_True_def)


lemma sample_event_fields:
  "button (drag_to bt p q fin) = bt" "scenePos (drag_to bt p q fin) = q"
  "screenPos (drag_to bt p q fin) = q" "lastScreenPos (drag_to bt p q fin) = p"
  "buttonDownPos (drag_to bt p q fin) bt' = p" "isFinish (drag_to bt p q fin) = fin"
  "scenePos (press_at p) = p" "accepted (press_at p)" "accepted shift_key"
  "keyCombination shift_key = \<lparr>keyboardModifiers = ShiftModifier, key = Key_Shift\<rparr>"
  "delta (wheel_at k p) = k" "pos (wheel_at k p) = p"
  by (simp_all add: drag_to_def press_at_def shift_key_def wheel_at_def)

subsection \<open>The mode setters\<close>

lemma setMouseMode_accepts:
  assumes "mode \<in> {PanMode, CursorMode, RectMode}"
  shows "setMouseMode mode self = (Inr (), emit_sigStateChanged (self\<lparr>mouseMode := mode\<rparr>))"
  using assms by (auto simp: setMouseMode_def)

lemma emit_sigStateChanged_fields:
  "mouseMode (emit_sigStateChanged v) = mouseMode v"
  "trace (emit_sigStateChanged v) = trace v @ [sigStateChanged]"
  by (simp_all add: emit_sigStateChanged_def viewStateChanged_def updateState_def emit_def Let_def)

text \<open>
  \<^bold>\<open>C2.\<close> \<open>setMouseMode\<close> rejects every argument other than \<open>PanMode\<close>, \<open>CursorMode\<close> and
  \<open>RectMode\<close> with an exception and leaves the viewport (its stored mode included) as it
  was; for each of the three modes it returns normally, stores the mode and emits
  \<open>sigStateChanged\<close>.
\<close>

theorem setMouseMode_validates:
  "(mode \<notin> {PanMode, CursorMode, RectMode} \<longrightarrow>
      (\<exists>msg. fst (setMouseMode mode self) = Inl (Exception msg))
      \<and> snd (setMouseMode mode self) = self)
   \<and> (mode \<in> {PanMode, CursorMode, RectMode} \<longrightarrow>
      fst (setMouseMode mode self) = Inr ()
      \<and> mouseMode (snd (setMouseMode mode self)) = mode
      \<and> trace (snd (setMouseMode mode self)) = trace self @ [sigStateChanged])"
proof (intro conjI impI)
  assume "mode \<notin> {PanMode, CursorMode, RectMode}"
  then show "\<exists>msg. fst (setMouseMode mode self) = Inl (Exception msg)"
    and "snd (setMouseMode mode self) = self"
    by (simp_all add: setMouseMode_def)
next
  assume "mode \<in> {PanMode, CursorMode, RectMode}"
  then have "setMouseMode mode self = (Inr (), emit_sigStateChanged (self\<lparr>mouseMode := mode\<rparr>))"
    by (rule setMouseMode_accepts)
  then show "fst (setMouseMode mode self) = Inr ()"
    and "mouseMode (snd (setMouseMode mode self)) = mode"
    and "trace (snd (setMouseMode mode self)) = trace self @ [sigStateChanged]"
    by (simp_all add: emit_sigStateChanged_fields)
qed

theorem setMouseMode_validates_witness:
  "(7 \<notin> {PanMode, CursorMode, RectMode}
      \<and> (\<exists>msg. fst (setMouseMode 7 cursor_view) = Inl (Exception msg))
      \<and> mouseMode (snd (setMouseMode 7 cursor_view)) = CursorMode)
   \<and> (PanMode \<in> {PanMode, CursorMode, RectMode}
      \<and> fst (setMouseMode PanMode cursor_view) = Inr ()
      \<and> mouseMode (snd (setMouseMode PanMode cursor_view)) = PanMode
      \<and> trace (snd (setMouseMode PanMode cursor_view)) = [sigStateChanged])"
proof -
  have out: "7 \<notin> {PanMode, CursorMode, RectMode}"
    by (simp add: PanMode_def CursorMode_def RectMode_def)
  have inside: "PanMode \<in> {PanMode, CursorMode, RectMode}" by simp
  have start: "mouseMode cursor_view = CursorMode" "trace cursor_view = []"
    by (simp_all add: cursor_view_eq)
  show ?thesis
    using out inside start
      setMouseMode_validates [of 7 cursor_view] setMouseMode_validates [of PanMode cursor_view]
    by simp
qed

subsection \<open>The legacy setter\<close>

lemma upper_char_simps:
  "upper_char CHR ''a'' = CHR ''A''" "upper_char CHR ''c'' = CHR ''C''"
  "upper_char CHR ''e'' = CHR ''E''" "upper_char CHR ''n'' = CHR ''N''"
  "upper_char CHR ''o'' = CHR ''O''" "upper_char CHR ''p'' = CHR ''P''"
  "upper_char CHR ''r'' = CHR ''R''" "upper_char CHR ''s'' = CHR ''S''"
  "upper_char CHR ''t'' = CHR ''T''" "upper_char CHR ''u'' = CHR ''U''"
  by (simp_all add: upper_char_def)

lemma lower_char_letters:
  "lower_char c = CHR ''a'' \<longleftrightarrow> c = CHR ''a'' \<or> c = CHR ''A''"
  "lower_char c = CHR ''c'' \<longleftrightarrow> c = CHR ''c'' \<or> c = CHR ''C''"
  "lower_char c = CHR ''e'' \<longleftrightarrow> c = CHR ''e'' \<or> c = CHR ''E''"
  "lower_char c = CHR ''n'' \<longleftrightarrow> c = CHR ''n'' \<or> c = CHR ''N''"
  "lower_char c = CHR ''o'' \<longleftrightarrow> c = CHR ''o'' \<or> c = CHR ''O''"
  "lower_char c = CHR ''p'' \<longleftrightarrow> c = CHR ''p'' \<or> c = CHR ''P''"
  "lower_char c = CHR ''r'' \<longleftrightarrow> c = CHR ''r'' \<or> c = CHR ''R''"
  "lower_char c = CHR ''s'' \<longleftrightarrow> c = CHR ''s'' \<or> c = CHR ''S''"
  "lower_char c = CHR ''t'' \<longleftrightarrow> c = CHR ''t'' \<or> c = CHR ''T''"
  "lower_char c = CHR ''u'' \<longleftrightarrow> c = CHR ''u'' \<or> c = CHR ''U''"
  by (auto simp: lower_char_def split: if_splits)

lemma lower_char_eq_iff:
  assumes "d \<in> set ''acenoprstu''"
  shows "lower_char c = d \<longleftrightarrow> c = d \<or> c = upper_char d"
  using assms by (auto simp: lower_char_letters upper_char_simps)

lemma map_eq_iff_list_all2: "map f s = w \<longleftrightarrow> list_all2 (\<lambda>d c. f c = d) w s"
  by (induction s arbitrary: w) (auto simp: list_all2_Cons2)

lemma lower_eq_iff_any_case:
  assumes "set w \<subseteq> set ''acenoprstu''"
  shows "lower s = w \<longleftrightarrow> any_case w s"
proof -
  have "list_all2 (\<lambda>d c. lower_char c = d) w s
      = list_all2 (\<lambda>d c. c = d \<or> c = upper_char d) w s"
    using assms
  proof (induction w arbitrary: s)
    case Nil
    then show ?case by simp
  next
    case (Cons d w)
    then have "d \<in> set ''acenoprstu''" by simp
    then have "\<And>c. lower_char c = d \<longleftrightarrow> c = d \<or> c = upper_char d"
      by (rule lower_char_eq_iff)
    with Cons show ?case by (cases s) auto
  qed
  then show ?thesis unfolding lower_def any_case_def map_eq_iff_list_all2 .
qed

lemma any_case_words:
  "lower s = ''pan'' \<longleftrightarrow> any_case ''pan'' s"
  "lower s = ''cursor'' \<longleftrightarrow> any_case ''cursor'' s"
  "lower s = ''rect'' \<longleftrightarrow> any_case ''rect'' s"
  by (rule lower_eq_iff_any_case, simp)+

lemma setLeftButtonAction_lower:
  "lower s = ''rect'' \<Longrightarrow> setLeftButtonAction s self = setMouseMode RectMode self"
  "lower s = ''pan'' \<Longrightarrow> setLeftButtonAction s self = setMouseMode PanMode self"
  "lower s = ''cursor'' \<Longrightarrow> setLeftButtonAction s self = setMouseMode CursorMode self"
  "lower s \<noteq> ''rect'' \<Longrightarrow> lower s \<noteq> ''pan'' \<Longrightarrow> lower s \<noteq> ''cursor'' \<Longrightarrow>
     \<exists>msg. setLeftButtonAction s self = (Inl (Exception msg), self)"
  by (simp_all add: setLeftButtonAction_def)

text \<open>
  \<^bold>\<open>C7.\<close> For every string \<open>s\<close>: when \<open>s\<close> is \<open>pan\<close>, \<open>cursor\<close> or \<open>rect\<close> with each
  letter in either case, \<open>setLeftButtonAction\<close> returns normally and the stored mode is
  \<open>PanMode\<close>, \<open>CursorMode\<close> or \<open>RectMode\<close>; for every other string it raises an exception
  and the viewport is as it was.
\<close>

theorem setLeftButtonAction_any_case:
  "(any_case ''pan'' s \<longrightarrow>
      fst (setLeftButtonAction s self) = Inr ()
      \<and> mouseMode (snd (setLeftButtonAction s self)) = PanMode)
   \<and> (any_case ''cursor'' s \<longrightarrow>
      fst (setLeftButtonAction s self) = Inr ()
      \<and> mouseMode (snd (setLeftButtonAction s self)) = CursorMode)
   \<and> (any_case ''rect'' s \<longrightarrow>
      fst (setLeftButtonAction s self) = Inr ()
      \<and> mouseMode (snd (setLeftButtonAction s self)) = RectMode)
   \<and> (\<not> any_case ''pan'' s \<and> \<not> any_case ''cursor'' s \<and> \<not> any_case ''rect'' s \<longrightarrow>
      (\<exists>msg. fst (setLeftButtonAction s self) = Inl (Exception msg))
      \<and> snd (setLeftButtonAction s self) = self)"
proof (intro conjI impI)
  assume "any_case ''pan'' s"
  then have "setLeftButtonAction s self = setMouseMode PanMode self"
    by (simp add: any_case_words[symmetric] setLeftButtonAction_lower)
  then show "fst (setLeftButtonAction s self) = Inr ()"
    and "mouseMode (snd (setLeftButtonAction s self)) = PanMode"
    by (simp_all add: setMouseMode_accepts emit_sigStateChanged_fields)
next
  assume "any_case ''cursor'' s"
  then have "setLeftButtonAction s self = setMouseMode CursorMode self"
    by (simp add: any_case_words[symmetric] setLeftButtonAction_lower)
  then show "fst (setLeftButtonAction s self) = Inr ()"
    and "mouseMode (snd (setLeftButtonAction s self)) = CursorMode"
    by (simp_all add: setMouseMode_accepts emit_sigStateChanged_fields)
next
  assume "any_case ''rect'' s"
  then have "setLeftButtonAction s self = setMouseMode RectMode self"
    by (simp add: any_case_words[symmetric] setLeftButtonAction_lower)
  then show "fst (setLeftButtonAction s self) = Inr ()"
    and "mouseMode (snd (setLeftButtonAction s self)) = RectMode"
    by (simp_all add: setMouseMode_accepts emit_sigStateChanged_fields)
next
  assume "\<not> any_case ''pan'' s \<and> \<not> any_case ''cursor'' s \<and> \<not> any_case ''rect'' s"
  then have "lower s \<noteq> ''rect''" "lower s \<noteq> ''pan''" "lower s \<noteq> ''cursor''"
    by (simp_all add: any_case_words)
  then obtain msg where "setLeftButtonAction s self = (Inl (Exception msg), self)"
    using setLeftButtonAction_lower(4) by blast
  then show "\<exists>msg. fst (setLeftButtonAction s self) = Inl (Exception msg)"
    and "snd (setLeftButtonAction s self) = self"
    by simp_all
qed

theorem setLeftButtonAction_any_case_witness:
  "(any_case ''pan'' ''PaN''
      \<and> mouseMode (snd (setLeftButtonAction ''PaN'' cursor_view)) = PanMode)
   \<and> (any_case ''cursor'' ''CURSOR''
      \<and> mouseMode (snd (setLeftButtonAction ''CURSOR'' pan_view)) = CursorMode)
   \<and> (any_case ''rect'' ''Rect''
      \<and> mouseMode (snd (setLeftButtonAction ''Rect'' pan_view)) = RectMode)
   \<and> (\<not> any_case ''pan'' ''zoom'' \<and> \<not> any_case ''cursor'' ''zoom''
      \<and> \<not> any_case ''rect'' ''zoom''
      \<and> (\<exists>msg. fst (setLeftButtonAction ''zoom'' pan_view) = Inl (Exception msg))
      \<and> mouseMode (snd (setLeftButtonAction ''zoom'' pan_view)) = PanMode)"
proof -
  have words: "any_case ''pan'' ''PaN''" "any_case ''cursor'' ''CURSOR''"
    "any_case ''rect'' ''Rect''"
    "\<not> any_case ''pan'' ''zoom''" "\<not> any_case ''cursor'' ''zoom''"
    "\<not> any_case ''rect'' ''zoom''"
    by (simp_all add: any_case_def upper_char_simps)
  have start: "mouseMode pan_view = PanMode" by (simp add: pan_view_eq)
  show ?thesis
    using words start
      setLeftButtonAction_any_case [of "''PaN''" cursor_view]
      setLeftButtonAction_any_case [of "''CURSOR''" pan_view]
      setLeftButtonAction_any_case [of "''Rect''" pan_view]
      setLeftButtonAction_any_case [of "''zoom''" pan_view]
    by simp
qed

subsection \<open>The menu\<close>

lemma setChecked_True_idem: "setChecked_True i (setChecked_True i cs) = setChecked_True i cs"
  by (simp add: setChecked_True_def map_update comp_def)

lemma updateState_idem: "updateState (updateState v) = updateState v"
  by (simp add: updateState_def Let_def setChecked_True_idem)

lemma setChecked_True_3:
  assumes "length cs = 3" and "i < 3"
  shows "setChecked_True i cs = [i = 0, i = 1, i = 2]"
proof -
  from assms(1) obtain a b c where cs: "cs = [a, b, c]"
    by (auto simp: numeral_3_eq_3 length_Suc_conv)
  from assms(2) consider "i = 0" | "i = 1" | "i = 2" by linarith
  then show ?thesis by cases (simp_all add: cs setChecked_True_def)
qed

lemma updateState_checked:
  assumes "length (mouseModes (menu v)) = 3"
  shows "mouseModes (menu (updateState v)) =
     [mouseMode v = PanMode, mouseMode v = CursorMode,
      mouseMode v \<noteq> PanMode \<and> mouseMode v \<noteq> CursorMode]"
  using assms
  by (simp add: updateState_def Let_def setChecked_True_3 PanMode_def CursorMode_def)

text \<open>
  \<^bold>\<open>C8.\<close> After a successful \<open>setMouseMode\<close> (whose notification runs the menu's
  \<open>viewStateChanged\<close> and so \<open>updateState\<close>), the checked states of the three entries
  \<open>[pan, cursor, zoom]\<close> are \<open>[mode = PanMode, mode = CursorMode, mode = RectMode]\<close>:
  exactly one entry is checked, the one of the new mode. A further \<open>updateState\<close> changes
  nothing, and \<open>updateState\<close> is idempotent on every viewport. The menu is assumed to hold
  its three entries, as its constructor builds it.
\<close>

theorem menu_checks_current_mode:
  assumes "fst (setMouseMode mode self) = Inr ()"
    and "length (mouseModes (menu self)) = 3"
  shows "mouseModes (menu (snd (setMouseMode mode self))) =
           [mode = PanMode, mode = CursorMode, mode = RectMode]
    \<and> count_list (mouseModes (menu (snd (setMouseMode mode self)))) True = 1
    \<and> updateState (snd (setMouseMode mode self)) = snd (setMouseMode mode self)
    \<and> (\<forall>view :: 'b ViewBoxWithCursor. updateState (updateState view) = updateState view)"
proof -
  from assms(1) have mode: "mode \<in> {PanMode, CursorMode, RectMode}"
    by (auto simp: setMouseMode_def split: if_splits)
  let ?v = "self\<lparr>mouseMode := mode\<rparr>\<lparr>trace := trace self @ [sigStateChanged]\<rparr>"
  let ?w = "?v\<lparr>menu := (menu ?v)\<lparr>valid := False\<rparr>\<rparr>"
  have res: "snd (setMouseMode mode self) = updateState ?w"
    using mode
    by (simp add: setMouseMode_accepts emit_sigStateChanged_def viewStateChanged_def emit_def)
  have len: "length (mouseModes (menu ?w)) = 3" using assms(2) by simp
  have checked: "mouseModes (menu (updateState ?w)) =
      [mode = PanMode, mode = CursorMode, mode = RectMode]"
  proof -
    have "mouseModes (menu (updateState ?w)) =
        [mode = PanMode, mode = CursorMode, mode \<noteq> PanMode \<and> mode \<noteq> CursorMode]"
      using updateState_checked[OF len] by simp
    moreover have "(mode \<noteq> PanMode \<and> mode \<noteq> CursorMode) = (mode = RectMode)"
      using mode by (auto simp: PanMode_def CursorMode_def RectMode_def)
    ultimately show ?thesis by simp
  qed
  have one: "count_list [mode = PanMode, mode = CursorMode, mode = RectMode] True = 1"
    using mode by (auto simp: PanMode_def CursorMode_def RectMode_def)
  show ?thesis
    unfolding res checked using one by (simp add: updateState_idem)
qed

theorem menu_checks_current_mode_witness:
  "fst (setMouseMode CursorMode pan_view) = Inr ()
   \<and> length (mouseModes (menu pan_view)) = 3
   \<and> mouseModes (menu pan_view) = [True, False, False]
   \<and> mouseModes (menu (snd (setMouseMode CursorMode pan_view))) = [False, True, False]
   \<and> updateState (snd (setMouseMode CursorMode pan_view)) = snd (setMouseMode CursorMode pan_view)"
proof -
  have ok: "fst (setMouseMode CursorMode pan_view) = Inr ()"
    by (simp add: setMouseMode_accepts)
  have entries: "mouseModes (menu pan_view) = [True, False, False]"
    by (simp add: pan_view_eq)
  then have len: "length (mouseModes (menu pan_view)) = 3" by simp
  have modes: "CursorMode \<noteq> PanMode" "CursorMode \<noteq> RectMode"
    by (simp_all add: PanMode_def CursorMode_def RectMode_def)
  from menu_checks_current_mode [OF ok len]
  have checked: "mouseModes (menu (snd (setMouseMode CursorMode pan_view))) =
      [CursorMode = PanMode, CursorMode = CursorMode, CursorMode = RectMode]"
    and again: "updateState (snd (setMouseMode CursorMode pan_view)) =
      snd (setMouseMode CursorMode pan_view)"
    by blast+
  from checked modes
  have "mouseModes (menu (snd (setMouseMode CursorMode pan_view))) = [False, True, False]"
    by simp
  with ok entries len again show ?thesis by blast
qed

subsection \<open>Keyboard and mouse press\<close>

lemma keyPressEvent_snd:
  "snd (keyPressEvent ev self) =
     (if zoom_start self = None then self\<lparr>zoom := Some (toCombined (keyCombination ev))\<rparr>
      else self)"
  by (simp add: keyPressEvent_def Let_def)

lemma keyReleaseEvent_snd:
  "snd (keyReleaseEvent ev self) = (if zoom_start self = None then self\<lparr>zoom := None\<rparr> else self)"
  by (simp add: keyReleaseEvent_def Let_def)

lemma mousePressEvent_snd:
  "snd (mousePressEvent vb ev self) =
     (if mouseMode self = CursorMode \<and> recognized (zoom self)
      then self\<lparr>zoom_start := Some (mapSceneToView vb (base self) (scenePos ev))\<rparr>
      else self)"
  by (simp add: mousePressEvent_def Let_def recognized_def)

text \<open>
  \<^bold>\<open>C10.\<close> \<open>keyPressEvent\<close>, \<open>keyReleaseEvent\<close> and \<open>mousePressEvent\<close> leave the event
  not accepted, for every event and every viewport: also when the key press arms a
  modifier and when the mouse press starts a gesture.
\<close>

theorem press_and_key_events_ignored:
  "\<not> accepted (fst (keyPressEvent kev self))
   \<and> \<not> accepted (fst (keyReleaseEvent kev self))
   \<and> \<not> accepted (fst (mousePressEvent vb mev self))"
  by (simp add: keyPressEvent_def keyReleaseEvent_def mousePressEvent_def ignore_def Let_def)

theorem press_and_key_events_ignored_witness:
  "accepted shift_key \<and> accepted (press_at (3, 4))
   \<and> zoom (snd (keyPressEvent shift_key cursor_view)) = Some X_zoom
   \<and> \<not> accepted (fst (keyPressEvent shift_key cursor_view))
   \<and> \<not> accepted (fst (keyReleaseEvent shift_key cursor_view))
   \<and> zoom_start (snd (mousePressEvent range_ViewBox (press_at (3, 4))
        (snd (keyPressEvent shift_key cursor_view)))) = Some (3, 4)
   \<and> \<not> accepted (fst (mousePressEvent range_ViewBox (press_at (3, 4))
        (snd (keyPressEvent shift_key cursor_view))))"
proof -
  have before: "accepted shift_key" "accepted (press_at (3, 4))"
    by (simp_all add: shift_key_def press_at_def)
  have armed: "snd (keyPressEvent shift_key cursor_view) = cursor_view\<lparr>zoom := Some X_zoom\<rparr>"
    by (simp add: keyPressEvent_snd cursor_view_eq shift_key_def X_zoom_def)
  have started: "zoom_start (snd (mousePressEvent range_ViewBox (press_at (3, 4))
      (cursor_view\<lparr>zoom := Some X_zoom\<rparr>))) = Some (3, 4)"
    by (simp add: mousePressEvent_snd recognized_simps cursor_view_eq press_at_def
        range_ViewBox_def)
  show ?thesis
    using before started
      press_and_key_events_ignored [of shift_key cursor_view range_ViewBox "press_at (3, 4)"]
      press_and_key_events_ignored [of shift_key "cursor_view\<lparr>zoom := Some X_zoom\<rparr>"
        range_ViewBox "press_at (3, 4)"]
    by (simp add: armed)
qed

subsection \<open>Dragging in cursor mode\<close>

lemma drag_cursor_left:
  assumes "mouseMode self = CursorMode" and "\<not> ignore_cursor" and "button ev = LeftButton"
  shows "snd (mouseDragEvent vb ev ax ignore_cursor self) =
     (case zoom_start self of
        None \<Rightarrow> self\<lparr>trace := trace self @ [sigCursorMoved (accept ev)]\<rparr>
      | Some start \<Rightarrow>
          (let payload = (start, mapSceneToView vb (base self) (scenePos ev), zoom self)
           in if isFinish ev
              then self\<lparr>zoom_start := None,
                        trace := trace self @
                          [sigCursorMoved (accept ev), sigZoomChanged (Some payload),
                           sigZoomFinished payload, sigZoomChanged None]\<rparr>
              else self\<lparr>trace := trace self @
                          [sigCursorMoved (accept ev), sigZoomChanged (Some payload)]\<rparr>))"
  using assms
  by (simp add: mouseDragEvent_def Let_def emit_def accept_def split: option.split)

lemma drag_gesture_fields:
  "mouseMode (snd (mouseDragEvent vb ev ax ign self)) = mouseMode self"
  "zoom (snd (mouseDragEvent vb ev ax ign self)) = zoom self"
  "zoom_start (snd (mouseDragEvent vb ev ax ign self)) =
     (if mouseMode self = CursorMode \<and> \<not> ign \<and> button ev = LeftButton \<and> isFinish ev
      then None else zoom_start self)"
  by (simp_all add: mouseDragEvent_def Let_def emit_def do_resetTarget_def do_translateBy_def
      do_scaleBy_def accept_fields split: option.split)

subsection \<open>Sequences of events and the gesture fields\<close>

lemma run_Cons: "run vb self (e # evs) = run vb (dispatch vb self e) evs"
  by (simp add: run_def)

lemma run_Nil: "run vb self [] = self"
  by (simp add: run_def)

lemma run_append: "run vb self (xs @ ys) = run vb (run vb self xs) ys"
  by (simp add: run_def)

lemma dispatch_inv:
  assumes "gesture_inv self"
  shows "gesture_inv (dispatch vb self e)"
proof (cases e)
  case (KeyPress ev)
  with assms show ?thesis by (auto simp: gesture_inv_def keyPressEvent_snd)
next
  case (KeyRelease ev)
  with assms show ?thesis by (auto simp: gesture_inv_def keyReleaseEvent_snd)
next
  case (MousePress ev)
  with assms show ?thesis by (auto simp: gesture_inv_def mousePressEvent_snd)
next
  case (MouseDrag ev ax ign)
  with assms show ?thesis by (auto simp: gesture_inv_def drag_gesture_fields)
qed

lemma run_inv:
  assumes "gesture_inv self"
  shows "gesture_inv (run vb self evs)"
  using assms unfolding run_def
  by (induction evs arbitrary: self) (simp_all add: dispatch_inv)

lemma init_inv: "gesture_inv (init b mode enabled locked factor stored)"
  by (simp add: gesture_inv_def init_def updateState_def Let_def)

lemma gesture_cleared_only_by_finish:
  assumes "zoom_start self \<noteq> None" and "zoom_start (dispatch vb self e) = None"
  shows "mouseMode self = CursorMode
    \<and> (\<exists>d ax. e = MouseDrag d ax False \<and> button d = LeftButton \<and> isFinish d)"
proof -
  from assms(1) obtain st where st: "zoom_start self = Some st" by auto
  show ?thesis
  proof (cases e)
  case (KeyPress ev)
  with assms(2) st show ?thesis by (simp add: keyPressEvent_snd)
next
  case (KeyRelease ev)
  with assms(2) st show ?thesis by (simp add: keyReleaseEvent_snd)
next
  case (MousePress ev)
  with assms(2) st show ?thesis by (simp add: mousePressEvent_snd split: if_splits)
next
  case (MouseDrag ev ax ign)
  with assms(2) st show ?thesis by (simp add: drag_gesture_fields split: if_splits)
  qed
qed

lemma gesture_view_eq:
  "gesture_view = cursor_view\<lparr>zoom := Some X_zoom, zoom_start := Some (3, 4)\<rparr>"
  by (simp add: gesture_view_def run_Cons run_Nil keyPressEvent_snd mousePressEvent_snd
      recognized_simps cursor_view_eq shift_key_def press_at_def range_ViewBox_def
      X_zoom_def[symmetric])

text \<open>
  \<^bold>\<open>C1\<close> (as the code has it). Over every sequence of key-press, key-release,
  mouse-press and drag events, from a fresh viewport or from any viewport where it holds,
  a start point is recorded only while the mode is \<open>CursorMode\<close> and \<open>self.zoom\<close> holds a
  recognized combination. A key release during a gesture changes neither the start point
  nor \<open>self.zoom\<close>, and the only event that clears a recorded start point is a finishing
  drag of the left button in cursor mode with \<open>ignore_cursor\<close> false.
\<close>

theorem gesture_state_invariant:
  "(gesture_inv self \<longrightarrow> gesture_inv (run vb self evs))
   \<and> gesture_inv (run vb (init b mode enabled locked factor stored) evs)
   \<and> (zoom_start self \<noteq> None \<longrightarrow>
        zoom_start (snd (keyReleaseEvent kev self)) = zoom_start self
        \<and> zoom (snd (keyReleaseEvent kev self)) = zoom self)
   \<and> (zoom_start self \<noteq> None \<and> zoom_start (dispatch vb self e) = None \<longrightarrow>
        mouseMode self = CursorMode
        \<and> (\<exists>d ax. e = MouseDrag d ax False \<and> button d = LeftButton \<and> isFinish d))"
  using gesture_cleared_only_by_finish [of self vb e]
  by (simp add: run_inv init_inv keyReleaseEvent_snd)

theorem gesture_state_invariant_witness:
  "gesture_inv gesture_view
   \<and> zoom_start gesture_view = Some (3, 4)
   \<and> gesture_inv (run range_ViewBox gesture_view
        [KeyRelease shift_key, MouseDrag (drag_to LeftButton (3, 4) (5, 4) True) None False])
   \<and> zoom_start (snd (keyReleaseEvent shift_key gesture_view)) = Some (3, 4)
   \<and> zoom (snd (keyReleaseEvent shift_key gesture_view)) = Some X_zoom
   \<and> zoom_start (dispatch range_ViewBox gesture_view
        (MouseDrag (drag_to LeftButton (3, 4) (5, 4) True) None False)) = None
   \<and> mouseMode gesture_view = CursorMode"
proof -
  have fields: "zoom_start gesture_view = Some (3, 4)" "zoom gesture_view = Some X_zoom"
    "mouseMode gesture_view = CursorMode"
    by (simp_all add: gesture_view_eq cursor_view_eq)
  then have inv: "gesture_inv gesture_view"
    by (simp add: gesture_inv_def recognized_simps)
  have cleared: "zoom_start (dispatch range_ViewBox gesture_view
      (MouseDrag (drag_to LeftButton (3, 4) (5, 4) True) None False)) = None"
    by (simp add: drag_gesture_fields fields drag_to_def)
  show ?thesis
    using fields inv cleared
      gesture_state_invariant [of gesture_view range_ViewBox
        "[KeyRelease shift_key, MouseDrag (drag_to LeftButton (3, 4) (5, 4) True) None False]"
        "((0, 10), (0, 1))" CursorMode "(True, True)" None "- 1 / 8" None shift_key
        "MouseDrag (drag_to LeftButton (3, 4) (5, 4) True) None False"]
    by simp
qed

text \<open>
  \<^bold>\<open>C1\<close> (as claimed) fails: Shift goes down, the mouse is pressed at \<open>(3, 4)\<close> in cursor
  mode, Shift is released. The start point is still recorded after the release.
\<close>

theorem key_release_keeps_gesture:
  "zoom_start (run range_ViewBox cursor_view
      [KeyPress shift_key, MousePress (press_at (3, 4)), KeyRelease shift_key]) = Some (3, 4)"
proof -
  have "run range_ViewBox cursor_view
      [KeyPress shift_key, MousePress (press_at (3, 4)), KeyRelease shift_key]
      = run range_ViewBox gesture_view [KeyRelease shift_key]"
    unfolding gesture_view_def by (simp add: run_def)
  then show ?thesis
    by (simp add: run_Cons run_Nil keyReleaseEvent_snd gesture_view_eq)
qed

subsection \<open>The life of a zoom gesture\<close>

lemma arm_and_press:
  assumes "mouseMode self = CursorMode" and "gesture_inv self"
    and "toCombined (keyCombination kev) = X_zoom"
  shows "run vb self [KeyPress kev, MousePress mev] =
     self\<lparr>zoom := (if zoom_start self = None then Some X_zoom else zoom self),
          zoom_start := Some (mapSceneToView vb (base self) (scenePos mev))\<rparr>"
proof (cases "zoom_start self = None")
  case True
  with assms show ?thesis
    by (simp add: run_Cons run_Nil keyPressEvent_snd mousePressEvent_snd recognized_simps)
next
  case False
  then obtain st where st: "zoom_start self = Some st" by auto
  with assms(2) have "recognized (zoom self)" by (simp add: gesture_inv_def)
  with st assms(1) show ?thesis
    by (simp add: run_Cons run_Nil keyPressEvent_snd mousePressEvent_snd)
qed

lemma drags_in_gesture:
  assumes "mouseMode self = CursorMode" and "zoom_start self = Some start"
    and "\<forall>(d, ax) \<in> set ds. button d = LeftButton \<and> \<not> isFinish d"
  shows "run vb self (map (\<lambda>(d, ax). MouseDrag d ax False) ds) =
     self\<lparr>trace := trace self @ concat (map (\<lambda>(d, ax).
        [sigCursorMoved (accept d),
         sigZoomChanged (Some (start, mapSceneToView vb (base self) (scenePos d), zoom self))])
        ds)\<rparr>"
  using assms
proof (induction ds arbitrary: self)
  case Nil
  then show ?case by (simp add: run_Nil)
next
  case (Cons p ds)
  obtain d ax where p: "p = (d, ax)" by (cases p)
  let ?s = "self\<lparr>trace := trace self @ [sigCursorMoved (accept d),
         sigZoomChanged (Some (start, mapSceneToView vb (base self) (scenePos d), zoom self))]\<rparr>"
  from Cons.prems p have d: "button d = LeftButton" "\<not> isFinish d" by auto
  have step: "dispatch vb self (MouseDrag d ax False) = ?s"
    using Cons.prems(1,2) d by (simp add: drag_cursor_left Let_def)
  have "run vb ?s (map (\<lambda>(d, ax). MouseDrag d ax False) ds) =
     ?s\<lparr>trace := trace ?s @ concat (map (\<lambda>(d, ax).
        [sigCursorMoved (accept d),
         sigZoomChanged (Some (start, mapSceneToView vb (base ?s) (scenePos d), zoom ?s))])
        ds)\<rparr>"
    using Cons.prems by (intro Cons.IH) auto
  moreover have "run vb self (map (\<lambda>(d, ax). MouseDrag d ax False) (p # ds)) =
      run vb ?s (map (\<lambda>(d, ax). MouseDrag d ax False) ds)"
    unfolding p by (simp add: run_Cons step del: dispatch.simps)
  ultimately show ?case by (simp add: p)
qed

text \<open>
  \<^bold>\<open>C3.\<close> In cursor mode, let a key press with the combination \<open>X_zoom\<close> be followed by
  a mouse press at scene position \<open>scenePos mev\<close> (the handler does not look at the button,
  so this holds for the left button too). Then a gesture is started at the data-space
  position of the press, with the armed combination in \<open>self.zoom\<close>: \<open>X_zoom\<close> when no
  gesture was in progress at the key press, and the recognized combination of the gesture
  in progress otherwise. Every following left-button drag that is not a finish (with
  \<open>ignore_cursor\<close> false) emits \<open>sigCursorMoved\<close> and then \<open>sigZoomChanged\<close> with
  (start, data-space position of the drag, armed combination), and keeps the start point.
  A finishing drag emits \<open>sigCursorMoved\<close>, \<open>sigZoomChanged\<close> with that payload,
  \<open>sigZoomFinished\<close> once with the same payload, clears the start point and then emits
  \<open>sigZoomChanged\<close> with \<open>None\<close>. The drag after it emits \<open>sigCursorMoved\<close> only.
\<close>

theorem zoom_gesture_lifecycle:
  assumes "mouseMode self = CursorMode" and "gesture_inv self"
    and "toCombined (keyCombination kev) = X_zoom"
    and "\<forall>(d, ax) \<in> set ds. button d = LeftButton \<and> \<not> isFinish d"
    and "button fin = LeftButton" and "isFinish fin"
    and "button nxt = LeftButton"
  shows
    "let start = mapSceneToView vb (base self) (scenePos mev);
         armed = (if zoom_start self = None then Some X_zoom else zoom self);
         payload = (\<lambda>d. (start, mapSceneToView vb (base self) (scenePos d), armed));
         s1 = run vb self [KeyPress kev, MousePress mev];
         s2 = run vb s1 (map (\<lambda>(d, ax). MouseDrag d ax False) ds);
         s3 = run vb s2 [MouseDrag fin ax1 False];
         s4 = run vb s3 [MouseDrag nxt ax2 False]
     in zoom_start s1 = Some start \<and> zoom s1 = armed \<and> recognized armed
      \<and> trace s1 = trace self
      \<and> trace s2 = trace s1 @ concat (map (\<lambda>(d, ax).
            [sigCursorMoved (accept d), sigZoomChanged (Some (payload d))]) ds)
      \<and> zoom_start s2 = Some start
      \<and> trace s3 = trace s2 @ [sigCursorMoved (accept fin), sigZoomChanged (Some (payload fin)),
            sigZoomFinished (payload fin), sigZoomChanged None]
      \<and> zoom_start s3 = None
      \<and> trace s4 = trace s3 @ [sigCursorMoved (accept nxt)]
      \<and> zoom_start s4 = None"
proof -
  let ?start = "mapSceneToView vb (base self) (scenePos mev)"
  let ?armed = "if zoom_start self = None then Some X_zoom else zoom self"
  let ?s1 = "self\<lparr>zoom := ?armed, zoom_start := Some ?start\<rparr>"
  have armed: "recognized ?armed"
    using assms(2) by (auto simp: gesture_inv_def recognized_simps)
  have s1: "run vb self [KeyPress kev, MousePress mev] = ?s1"
    using assms(1-3) by (rule arm_and_press)
  let ?tr = "concat (map (\<lambda>(d, ax). [sigCursorMoved (accept d),
      sigZoomChanged (Some (?start, mapSceneToView vb (base self) (scenePos d), ?armed))]) ds)"
  let ?s2 = "?s1\<lparr>trace := trace self @ ?tr\<rparr>"
  have s2: "run vb ?s1 (map (\<lambda>(d, ax). MouseDrag d ax False) ds) = ?s2"
    using drags_in_gesture[of ?s1 ?start ds vb] assms(1,4) by simp
  let ?p = "(?start, mapSceneToView vb (base self) (scenePos fin), ?armed)"
  let ?s3 = "?s2\<lparr>zoom_start := None, trace := trace ?s2 @ [sigCursorMoved (accept fin),
      sigZoomChanged (Some ?p), sigZoomFinished ?p, sigZoomChanged None]\<rparr>"
  have s3: "run vb ?s2 [MouseDrag fin ax1 False] = ?s3"
    using assms(1,5,6) by (simp add: run_Cons run_Nil drag_cursor_left Let_def)
  have s4: "run vb ?s3 [MouseDrag nxt ax2 False] =
      ?s3\<lparr>trace := trace ?s3 @ [sigCursorMoved (accept nxt)]\<rparr>"
    using assms(1,7) by (simp add: run_Cons run_Nil drag_cursor_left Let_def)
  show ?thesis
    unfolding Let_def s1 s2 s3 s4 using armed by simp
qed

theorem zoom_gesture_lifecycle_witness:
  "mouseMode cursor_view = CursorMode \<and> gesture_inv cursor_view
   \<and> toCombined (keyCombination shift_key) = X_zoom
   \<and> button (drag_to LeftButton (3, 4) (5, 4) False) = LeftButton
   \<and> \<not> isFinish (drag_to LeftButton (3, 4) (5, 4) False)
   \<and> button (drag_to LeftButton (5, 4) (6, 5) True) = LeftButton
   \<and> isFinish (drag_to LeftButton (5, 4) (6, 5) True)
   \<and> button (drag_to LeftButton (6, 5) (7, 5) False) = LeftButton
   \<and> trace (run range_ViewBox cursor_view
        [KeyPress shift_key, MousePress (press_at (3, 4)),
         MouseDrag (drag_to LeftButton (3, 4) (5, 4) False) None False,
         MouseDrag (drag_to LeftButton (5, 4) (6, 5) True) None False,
         MouseDrag (drag_to LeftButton (6, 5) (7, 5) False) None False]) =
       [sigCursorMoved (accept (drag_to LeftButton (3, 4) (5, 4) False)),
        sigZoomChanged (Some ((3, 4), (5, 4), Some X_zoom)),
        sigCursorMoved (accept (drag_to LeftButton (5, 4) (6, 5) True)),
        sigZoomChanged (Some ((3, 4), (6, 5), Some X_zoom)),
        sigZoomFinished ((3, 4), (6, 5), Some X_zoom),
        sigZoomChanged None,
        sigCursorMoved (accept (drag_to LeftButton (6, 5) (7, 5) False))]"
proof -
  have h1: "mouseMode cursor_view = CursorMode" by (simp add: cursor_view_eq)
  have h2: "gesture_inv cursor_view" by (simp add: gesture_inv_def cursor_view_eq)
  have h3: "toCombined (keyCombination shift_key) = X_zoom"
    by (simp add: shift_key_def X_zoom_def)
  have h4: "\<forall>(d, ax) \<in> set [(drag_to LeftButton (3, 4) (5, 4) False, None :: axis option)].
      button d = LeftButton \<and> \<not> isFinish d"
    by (simp add: drag_to_def)
  have h5: "button (drag_to LeftButton (5, 4) (6, 5) True) = LeftButton"
    and h6: "isFinish (drag_to LeftButton (5, 4) (6, 5) True)"
    and h7: "button (drag_to LeftButton (6, 5) (7, 5) False) = LeftButton"
    by (simp_all add: drag_to_def)
  have idle: "zoom_start cursor_view = None" "trace cursor_view = []"
    "base cursor_view = ((0, 10), (0, 1))"
    by (simp_all add: cursor_view_eq)
  have maps: "\<And>b p. mapSceneToView range_ViewBox b p = p"
    by (simp add: range_ViewBox_def)
  have pos: "scenePos (press_at (3, 4)) = (3, 4)"
    "scenePos (drag_to LeftButton (3, 4) (5, 4) False) = (5, 4)"
    "scenePos (drag_to LeftButton (5, 4) (6, 5) True) = (6, 5)"
    by (simp_all add: press_at_def drag_to_def)
  have split: "run range_ViewBox cursor_view
        [KeyPress shift_key, MousePress (press_at (3, 4)),
         MouseDrag (drag_to LeftButton (3, 4) (5, 4) False) None False,
         MouseDrag (drag_to LeftButton (5, 4) (6, 5) True) None False,
         MouseDrag (drag_to LeftButton (6, 5) (7, 5) False) None False] =
      run range_ViewBox (run range_ViewBox (run range_ViewBox
        (run range_ViewBox cursor_view [KeyPress shift_key, MousePress (press_at (3, 4))])
        (map (\<lambda>(d, ax). MouseDrag d ax False)
           [(drag_to LeftButton (3, 4) (5, 4) False, None)]))
        [MouseDrag (drag_to LeftButton (5, 4) (6, 5) True) None False])
        [MouseDrag (drag_to LeftButton (6, 5) (7, 5) False) None False]"
    by (simp add: run_def del: dispatch.simps)
  show ?thesis
    unfolding split
    using zoom_gesture_lifecycle [OF h1 h2 h3 h4 h5 h6 h7, of range_ViewBox "press_at (3, 4)"
        None None] h1 h2 h3 h4 h5 h6 h7
    by (simp add: Let_def idle maps pos sample_event_fields del: dispatch.simps)
qed

subsection \<open>What a cursor drag leaves alone\<close>

text \<open>
  \<^bold>\<open>C9.\<close> In cursor mode with \<open>ignore_cursor\<close> false, a drag of the left button leaves
  the state of the inherited viewport (transform, ranges, auto-range target) untouched, and
  everything it appends to the trace is a cursor-moved or a zoom signal: no inherited
  mutator is called and \<open>sigRangeChangedManually\<close> is not emitted, whether or not a
  gesture is in progress.
\<close>

theorem cursor_drag_frame:
  assumes "mouseMode self = CursorMode" and "\<not> ignore_cursor" and "button ev = LeftButton"
  shows "base (snd (mouseDragEvent vb ev ax ignore_cursor self)) = base self
    \<and> (\<exists>es. trace (snd (mouseDragEvent vb ev ax ignore_cursor self)) = trace self @ es
           \<and> (\<forall>e \<in> set es. cursor_or_zoom_signal e))"
  unfolding drag_cursor_left[OF assms]
  by (simp add: Let_def split: option.split)

theorem cursor_drag_frame_witness:
  "mouseMode gesture_view = CursorMode
   \<and> button (drag_to LeftButton (3, 4) (5, 4) True) = LeftButton
   \<and> base (snd (mouseDragEvent range_ViewBox (drag_to LeftButton (3, 4) (5, 4) True) None False
        gesture_view)) = ((0, 10), (0, 1))
   \<and> (\<exists>es. trace (snd (mouseDragEvent range_ViewBox (drag_to LeftButton (3, 4) (5, 4) True)
        None False gesture_view)) = es \<and> (\<forall>e \<in> set es. cursor_or_zoom_signal e))"
proof -
  have h1: "mouseMode gesture_view = CursorMode" by (simp add: gesture_view_eq cursor_view_eq)
  have h2: "\<not> False" by simp
  have h3: "button (drag_to LeftButton (3, 4) (5, 4) True) = LeftButton"
    by (simp add: drag_to_def)
  have start: "base gesture_view = ((0, 10), (0, 1))" "trace gesture_view = []"
    by (simp_all add: gesture_view_eq cursor_view_eq)
  show ?thesis
    using h1 h3 cursor_drag_frame [OF h1 h2 h3, of range_ViewBox None]
    by (simp add: start)
qed

subsection \<open>The wheel\<close>

text \<open>
  The centering branch calls \<open>setXRange\<close> with padding 0 on the bounds
  \<open>(p - w / 2) - step\<close> and \<open>(p + w / 2) + step\<close>, each operation rounded. Whether their
  midpoint and their difference equal \<open>p\<close> and \<open>w * (1 - 2 * delta * 0.15 / 120)\<close> exactly
  (\<^bold>\<open>C4\<close>) depends on the rounding of double-precision arithmetic, which the embedding
  leaves open; no such equality is stated.
\<close>



subsection \<open>Scaling by a right-button drag\<close>

lemma locked_ViewBox_fields:
  "invertedMap locked_ViewBox b p = p" "resetTarget locked_ViewBox b = b"
  "scaleBy locked_ViewBox x y c r =
     ((fst c + (fst (fst r) - fst c) * scale_entry y,
       fst c + (snd (fst r) - fst c) * scale_entry y),
      (snd c + (fst (snd r) - snd c) * scale_entry y,
       snd c + (snd (snd r) - snd c) * scale_entry y))"
  by (simp_all add: locked_ViewBox_def range_ViewBox_def Let_def)

lemma drag_right_button:
  assumes "\<not> (mouseMode self = CursorMode \<and> \<not> ignore_cursor)"
    and "button ev \<notin> {LeftButton, MiddleButton}"
    and "button ev AND RightButton \<noteq> 0"
  shows "snd (mouseDragEvent vb ev ax ignore_cursor self) =
      emit (sigRangeChangedManually (mouseEnabled self))
        (do_scaleBy vb
          (if fst (mouseEnabled self)
           then Some ((fst (if aspectLocked self \<noteq> None
                            then (0, snd (drag_mask (mouseEnabled self) ax))
                            else drag_mask (mouseEnabled self) ax) * 0.02 + 1)
                       powr (fst (screenPos ev) * (- 1) - fst (lastScreenPos ev) * (- 1)))
           else None)
          (if snd (mouseEnabled self)
           then Some ((snd (drag_mask (mouseEnabled self) ax) * 0.02 + 1)
                       powr (snd (screenPos ev) - snd (lastScreenPos ev)))
           else None)
          (invertedMap vb (base self) (buttonDownPos ev RightButton))
          (do_resetTarget vb self))"
proof -
  from assms(1) have c1: "(mouseMode self = CursorMode \<and> \<not> ignore_cursor) = False" by simp
  show ?thesis
    using assms(2,3)
    by (simp add: mouseDragEvent_def Let_def accept_fields c1 Point_sub_def
        do_scaleBy_def do_resetTarget_def emit_def float_of_bool_def algebra_simps)
qed

text \<open>
  \<^bold>\<open>C6\<close> (as the code has it). In the branch for the right button outside the cursor
  branch, with the aspect ratio locked, the handler calls \<open>_resetTarget()\<close> and then
  \<open>scaleBy(x, y, center)\<close> with \<open>x = 1\<close> when the x axis is mouse-enabled and \<open>x = None\<close>
  otherwise, whatever the drag distance, with \<open>y = (mask[1] * 0.02 + 1) ** dy\<close> when the
  y axis is mouse-enabled and \<open>y = None\<close> otherwise, and with the button-down position
  mapped through the inverted transform as \<open>center\<close>; the state of the inherited viewport
  after the event is what the library's \<open>scaleBy\<close> makes of these arguments. The statement
  is about the arguments: which factor the x axis receives is the library's decision.
\<close>

theorem aspect_locked_drag_passes_unit_x:
  assumes "\<not> (mouseMode self = CursorMode \<and> \<not> ignore_cursor)"
    and "button ev \<notin> {LeftButton, MiddleButton}"
    and "button ev AND RightButton \<noteq> 0"
    and "aspectLocked self \<noteq> None"
  shows "let x = (if fst (mouseEnabled self) then Some 1 else None);
             y = (if snd (mouseEnabled self)
                  then Some ((snd (drag_mask (mouseEnabled self) ax) * 0.02 + 1)
                             powr (snd (screenPos ev) - snd (lastScreenPos ev)))
                  else None);
             center = invertedMap vb (base self) (buttonDownPos ev RightButton)
         in trace (snd (mouseDragEvent vb ev ax ignore_cursor self)) =
              trace self @ [call_resetTarget, call_scaleBy x y center,
                            sigRangeChangedManually (mouseEnabled self)]
          \<and> base (snd (mouseDragEvent vb ev ax ignore_cursor self)) =
              scaleBy vb x y center (resetTarget vb (base self))"
  unfolding drag_right_button [OF assms(1-3)]
  using assms(4)
  by (auto simp: Let_def do_scaleBy_def do_resetTarget_def emit_def)

theorem aspect_locked_drag_passes_unit_x_witness:
  "\<not> (mouseMode pan_view = CursorMode \<and> \<not> False)
   \<and> button (drag_to RightButton (0, 0) (30, 2) False) \<notin> {LeftButton, MiddleButton}
   \<and> button (drag_to RightButton (0, 0) (30, 2) False) AND RightButton \<noteq> 0
   \<and> aspectLocked pan_view \<noteq> None
   \<and> trace (snd (mouseDragEvent locked_ViewBox (drag_to RightButton (0, 0) (30, 2) False)
        None False pan_view)) =
       [call_resetTarget, call_scaleBy (Some 1) (Some (1.02 powr 2)) (0, 0),
        sigRangeChangedManually (True, True)]
   \<and> base (snd (mouseDragEvent locked_ViewBox (drag_to RightButton (0, 0) (30, 2) False)
        None False pan_view)) =
       scaleBy locked_ViewBox (Some 1) (Some (1.02 powr 2)) (0, 0) ((0, 10), (0, 1))"
proof -
  have fields: "mouseMode pan_view = PanMode" "aspectLocked pan_view = Some 1"
    "mouseEnabled pan_view = (True, True)" "trace pan_view = []"
    "base pan_view = ((0, 10), (0, 1))"
    by (simp_all add: pan_view_eq)
  have h1: "\<not> (mouseMode pan_view = CursorMode \<and> \<not> False)"
    by (simp add: fields PanMode_def CursorMode_def)
  have h2: "button (drag_to RightButton (0, 0) (30, 2) False) \<notin> {LeftButton, MiddleButton}"
    by (simp add: drag_to_def LeftButton_def RightButton_def MiddleButton_def)
  have h3: "button (drag_to RightButton (0, 0) (30, 2) False) AND RightButton \<noteq> 0"
    by (simp add: drag_to_def RightButton_def)
  have h4: "aspectLocked pan_view \<noteq> None" by (simp add: fields)
  have ev: "screenPos (drag_to RightButton (0, 0) (30, 2) False) = (30, 2)"
    "lastScreenPos (drag_to RightButton (0, 0) (30, 2) False) = (0, 0)"
    "buttonDownPos (drag_to RightButton (0, 0) (30, 2) False) RightButton = (0, 0)"
    by (simp_all add: drag_to_def)
  have lib: "invertedMap locked_ViewBox ((0, 10), (0, 1)) (0, 0) = (0, 0)"
    "resetTarget locked_ViewBox ((0, 10), (0, 1)) = ((0, 10), (0, 1))"
    by (simp_all add: locked_ViewBox_fields)
  have mask: "drag_mask (True, True) None = (1, 1)"
    by (simp add: drag_mask_def float_of_bool_def)
  from aspect_locked_drag_passes_unit_x [OF h1 h2 h3 h4, of None locked_ViewBox]
  have "trace (snd (mouseDragEvent locked_ViewBox (drag_to RightButton (0, 0) (30, 2) False)
        None False pan_view)) =
       [call_resetTarget, call_scaleBy (Some 1) (Some (1.02 powr 2)) (0, 0),
        sigRangeChangedManually (True, True)]
   \<and> base (snd (mouseDragEvent locked_ViewBox (drag_to RightButton (0, 0) (30, 2) False)
        None False pan_view)) =
       scaleBy locked_ViewBox (Some 1) (Some (1.02 powr 2)) (0, 0) ((0, 10), (0, 1))"
    unfolding Let_def fields ev lib mask by simp
  with h1 h2 h3 h4 show ?thesis by blast
qed

text \<open>
  \<^bold>\<open>C6\<close> (as claimed) fails. With the aspect ratio locked, a right-button drag by
  \<open>(30, 2)\<close> in pan mode passes \<open>x = 1\<close> and \<open>y = 1.02 ** 2\<close>, and the aspect-locked
  \<open>scaleBy\<close> scales both axes by the y factor: the x range \<open>[0, 10]\<close> becomes
  \<open>[0, 10.404]\<close>, so the x axis is scaled by \<open>1.0404\<close>, not by 1, and the y axis is not the
  only one scaled.
\<close>

theorem aspect_locked_drag_scales_x:
  "base pan_view = ((0, 10), (0, 1))
   \<and> trace (snd (mouseDragEvent locked_ViewBox (drag_to RightButton (0, 0) (30, 2) False)
        None False pan_view)) =
       [call_resetTarget, call_scaleBy (Some 1) (Some (10404 / 10000)) (0, 0),
        sigRangeChangedManually (True, True)]
   \<and> base (snd (mouseDragEvent locked_ViewBox (drag_to RightButton (0, 0) (30, 2) False)
        None False pan_view)) = ((0, 10404 / 1000), (0, 10404 / 10000))"
proof -
  have fields: "mouseMode pan_view = PanMode" "aspectLocked pan_view = Some 1"
    "mouseEnabled pan_view = (True, True)" "trace pan_view = []"
    "base pan_view = ((0, 10), (0, 1))"
    by (simp_all add: pan_view_eq)
  have h1: "\<not> (mouseMode pan_view = CursorMode \<and> \<not> False)"
    by (simp add: fields PanMode_def CursorMode_def)
  have h2: "button (drag_to RightButton (0, 0) (30, 2) False) \<notin> {LeftButton, MiddleButton}"
    by (simp add: drag_to_def LeftButton_def RightButton_def MiddleButton_def)
  have h3: "button (drag_to RightButton (0, 0) (30, 2) False) AND RightButton \<noteq> 0"
    by (simp add: drag_to_def RightButton_def)
  show ?thesis
    unfolding drag_right_button [OF h1 h2 h3]
    by (simp add: fields sample_event_fields drag_mask_def float_of_bool_def do_scaleBy_def
        do_resetTarget_def emit_def locked_ViewBox_fields scale_entry_def power2_eq_square)
qed

end
